theory Spec2Isabelle
  imports Main "HOL-Library.Sublist"
begin

section \<open>Data model (src/types.ts)\<close>

text \<open>
  JavaScript strings are modelled as \<open>string\<close>: the characters of the Latin-1 range.
  The three scores are JavaScript numbers, read here as integers.
\<close>

datatype Priority = High | Medium | Low

datatype Category = Content | Keywords | Formatting

datatype AnalysisStatus = idle | analyzing | success | error

record SkillBreakdown =
  category :: string
  score :: int

record WorkExperience =
  role :: string
  company :: string
  duration :: string
  description :: "string list"

record ContactInfo =
  email :: string
  phone :: string
  location :: string

record PlanEntry =
  priority :: Priority
  category :: Category
  action :: string
  explanation :: string
  expectedBenefit :: string

record AnalysisResult =
  atsScore :: int
  parsabilityScore :: int
  keywordMatchScore :: int
  candidateName :: string
  candidateTitle :: string
  contactInfo :: ContactInfo
  professionalSummary :: string
  workExperience :: "WorkExperience list"
  extractedSkills :: "string list"
  missingKeywords :: "string list"
  strengths :: "string list"
  weaknesses :: "string list"
  formattingIssues :: "string list"
  improvementPlan :: "PlanEntry list"
  skillBreakdown :: "SkillBreakdown list"

text \<open>The string each member of the two literal unions is at run time.\<close>

fun priority_text :: "Priority \<Rightarrow> string" where
  "priority_text High = ''High''"
| "priority_text Medium = ''Medium''"
| "priority_text Low = ''Low''"

fun category_text :: "Category \<Rightarrow> string" where
  "category_text Content = ''Content''"
| "category_text Keywords = ''Keywords''"
| "category_text Formatting = ''Formatting''"


section \<open>Analysis client (src/services/geminiService.ts)\<close>

text \<open>
  The response text and the strings inside a parsed value are sequences of UTF-16 code
  units, given as integers; \<open>units\<close> turns a literal into its code units.
\<close>

definition units :: "string \<Rightarrow> int list" where
  "units s = map of_char s"

subsection \<open>JSON.parse\<close>

text \<open>
  The platform's \<open>JSON.parse\<close>, following the JSON grammar (ECMA-404): white space is
  space, tab, line feed and carriage return; a string may not hold a raw control
  character; an object keeps, for a repeated key, the last value at the first position.
  A number is kept as its literal: its value as a double is floating point and nothing
  below depends on it.
\<close>

datatype json =
    JNull
  | JBool bool
  | JNumber "int list"
  | JString "int list"
  | JArray "json list"
  | JObject "(int list \<times> json) list"

definition is_ws :: "int \<Rightarrow> bool" where
  "is_ws c = (c = 32 \<or> c = 9 \<or> c = 10 \<or> c = 13)"

definition skip_ws :: "int list \<Rightarrow> int list" where
  "skip_ws cs = dropWhile is_ws cs"

definition is_digit :: "int \<Rightarrow> bool" where
  "is_digit c = (48 \<le> c \<and> c \<le> 57)"

definition hex_value :: "int \<Rightarrow> int option" where
  "hex_value c =
     (if 48 \<le> c \<and> c \<le> 57 then Some (c - 48)
      else if 97 \<le> c \<and> c \<le> 102 then Some (c - 87)
      else if 65 \<le> c \<and> c \<le> 70 then Some (c - 55)
      else None)"

definition escape_of :: "int \<Rightarrow> int option" where
  "escape_of c =
     (if c = 34 then Some 34
      else if c = 92 then Some 92
      else if c = 47 then Some 47
      else if c = 98 then Some 8
      else if c = 102 then Some 12
      else if c = 110 then Some 10
      else if c = 114 then Some 13
      else if c = 116 then Some 9
      else None)"

text \<open>
  The characters of a string after its opening quote, up to the closing quote. \<open>Hex k acc\<close>
  is inside a four-digit hexadecimal escape with \<open>k\<close> digits to go.
\<close>

datatype mode = Plain | Escaped | Hex nat int

definition cons_unit ::
  "int \<Rightarrow> (int list \<times> int list) option \<Rightarrow> (int list \<times> int list) option"
where
  "cons_unit c r = (case r of None \<Rightarrow> None | Some (s, rest) \<Rightarrow> Some (c # s, rest))"

fun string_body :: "mode \<Rightarrow> int list \<Rightarrow> (int list \<times> int list) option" where
  "string_body m [] = None"
| "string_body Plain (c # cs) =
     (if c = 34 then Some ([], cs)
      else if c = 92 then string_body Escaped cs
      else if c < 32 then None
      else cons_unit c (string_body Plain cs))"
| "string_body Escaped (c # cs) =
     (if c = 117 then string_body (Hex 4 0) cs
      else case escape_of c of
             None \<Rightarrow> None
           | Some u \<Rightarrow> cons_unit u (string_body Plain cs))"
| "string_body (Hex k acc) (c # cs) =
     (case hex_value c of
        None \<Rightarrow> None
      | Some d \<Rightarrow>
          if k \<le> 1 then cons_unit (16 * acc + d) (string_body Plain cs)
          else string_body (Hex (k - 1) (16 * acc + d)) cs)"

definition int_part :: "int list \<Rightarrow> (int list \<times> int list) option" where
  "int_part cs =
     (case cs of
        [] \<Rightarrow> None
      | c # r \<Rightarrow>
          if c = 48 then Some ([c], r)
          else if is_digit c then Some (takeWhile is_digit cs, dropWhile is_digit cs)
          else None)"

definition frac_part :: "int list \<Rightarrow> (int list \<times> int list) option" where
  "frac_part cs =
     (case cs of
        [] \<Rightarrow> Some ([], cs)
      | c # r \<Rightarrow>
          if c = 46 then
            (if takeWhile is_digit r = [] then None
             else Some (c # takeWhile is_digit r, dropWhile is_digit r))
          else Some ([], cs))"

definition exp_part :: "int list \<Rightarrow> (int list \<times> int list) option" where
  "exp_part cs =
     (case cs of
        [] \<Rightarrow> Some ([], cs)
      | c # r \<Rightarrow>
          if c = 101 \<or> c = 69 then
            (let (sg, r') = (case r of
                               [] \<Rightarrow> ([], r)
                             | s # r'' \<Rightarrow> if s = 43 \<or> s = 45 then ([s], r'') else ([], r))
             in if takeWhile is_digit r' = [] then None
                else Some (c # sg @ takeWhile is_digit r', dropWhile is_digit r'))
          else Some ([], cs))"

definition parse_number :: "int list \<Rightarrow> (int list \<times> int list) option" where
  "parse_number cs =
     (let (sg, r0) = (case cs of
                        [] \<Rightarrow> ([], cs)
                      | c # r \<Rightarrow> if c = 45 then ([c], r) else ([], cs))
      in case int_part r0 of
           None \<Rightarrow> None
         | Some (ip, r1) \<Rightarrow>
             (case frac_part r1 of
                None \<Rightarrow> None
              | Some (fp, r2) \<Rightarrow>
                  (case exp_part r2 of
                     None \<Rightarrow> None
                   | Some (ep, r3) \<Rightarrow> Some (sg @ ip @ fp @ ep, r3))))"

fun strip_prefix :: "int list \<Rightarrow> int list \<Rightarrow> int list option" where
  "strip_prefix [] cs = Some cs"
| "strip_prefix (p # ps) [] = None"
| "strip_prefix (p # ps) (c # cs) = (if p = c then strip_prefix ps cs else None)"

fun set_property ::
  "int list \<Rightarrow> json \<Rightarrow> (int list \<times> json) list \<Rightarrow> (int list \<times> json) list"
where
  "set_property k v [] = [(k, v)]"
| "set_property k v ((k', v') # ps) =
     (if k' = k then (k, v) # ps else (k', v') # set_property k v ps)"

definition object_of :: "(int list \<times> json) list \<Rightarrow> (int list \<times> json) list" where
  "object_of kvs = fold (\<lambda>(k, v) obj. set_property k v obj) kvs []"

text \<open>
  Recursive descent with a bound on the number of nested calls; \<open>JSON_parse\<close> starts
  with more than the text is long, which is never used up (lemma \<open>JSON_parse_fuel\<close>).
\<close>

datatype 'a parsed = Parsed 'a "int list" | Malformed | Exhausted

fun parse_value :: "nat \<Rightarrow> int list \<Rightarrow> json parsed"
  and parse_elements :: "nat \<Rightarrow> int list \<Rightarrow> json list parsed"
  and parse_members :: "nat \<Rightarrow> int list \<Rightarrow> (int list \<times> json) list parsed"
where
  "parse_value 0 cs = Exhausted"
| "parse_value (Suc n) [] = Malformed"
| "parse_value (Suc n) (c # r) =
     (if c = 123 then
        (case skip_ws r of
           [] \<Rightarrow> Malformed
         | d # r' \<Rightarrow>
             if d = 125 then Parsed (JObject []) r'
             else (case parse_members n (d # r') of
                     Parsed kvs rest \<Rightarrow> Parsed (JObject (object_of kvs)) rest
                   | Malformed \<Rightarrow> Malformed
                   | Exhausted \<Rightarrow> Exhausted))
      else if c = 91 then
        (case skip_ws r of
           [] \<Rightarrow> Malformed
         | d # r' \<Rightarrow>
             if d = 93 then Parsed (JArray []) r'
             else (case parse_elements n (d # r') of
                     Parsed vs rest \<Rightarrow> Parsed (JArray vs) rest
                   | Malformed \<Rightarrow> Malformed
                   | Exhausted \<Rightarrow> Exhausted))
      else if c = 34 then
        (case string_body Plain r of
           None \<Rightarrow> Malformed
         | Some (s, rest) \<Rightarrow> Parsed (JString s) rest)
      else
        (case strip_prefix (units ''true'') (c # r) of
           Some rest \<Rightarrow> Parsed (JBool True) rest
         | None \<Rightarrow>
        (case strip_prefix (units ''false'') (c # r) of
           Some rest \<Rightarrow> Parsed (JBool False) rest
         | None \<Rightarrow>
        (case strip_prefix (units ''null'') (c # r) of
           Some rest \<Rightarrow> Parsed JNull rest
         | None \<Rightarrow>
        (case parse_number (c # r) of
           Some (lexeme, rest) \<Rightarrow> Parsed (JNumber lexeme) rest
         | None \<Rightarrow> Malformed)))))"
| "parse_elements 0 cs = Exhausted"
| "parse_elements (Suc n) cs =
     (case parse_value (Suc n) cs of
        Parsed v r \<Rightarrow>
          (case skip_ws r of
             [] \<Rightarrow> Malformed
           | d # r' \<Rightarrow>
               if d = 44 then
                 (case parse_elements n (skip_ws r') of
                    Parsed vs rest \<Rightarrow> Parsed (v # vs) rest
                  | Malformed \<Rightarrow> Malformed
                  | Exhausted \<Rightarrow> Exhausted)
               else if d = 93 then Parsed [v] r'
               else Malformed)
      | Malformed \<Rightarrow> Malformed
      | Exhausted \<Rightarrow> Exhausted)"
| "parse_members 0 cs = Exhausted"
| "parse_members (Suc n) cs =
     (case cs of
        [] \<Rightarrow> Malformed
      | q # r \<Rightarrow>
          if q \<noteq> 34 then Malformed
          else (case string_body Plain r of
                  None \<Rightarrow> Malformed
                | Some (k, r1) \<Rightarrow>
                    (case skip_ws r1 of
                       [] \<Rightarrow> Malformed
                     | colon # r2 \<Rightarrow>
                         if colon \<noteq> 58 then Malformed
                         else (case parse_value (Suc n) (skip_ws r2) of
                                 Parsed v r3 \<Rightarrow>
                                   (case skip_ws r3 of
                                      [] \<Rightarrow> Malformed
                                    | d # r4 \<Rightarrow>
                                        if d = 44 then
                                          (case parse_members n (skip_ws r4) of
                                             Parsed kvs rest \<Rightarrow> Parsed ((k, v) # kvs) rest
                                           | Malformed \<Rightarrow> Malformed
                                           | Exhausted \<Rightarrow> Exhausted)
                                        else if d = 125 then Parsed [(k, v)] r4
                                        else Malformed)
                               | Malformed \<Rightarrow> Malformed
                               | Exhausted \<Rightarrow> Exhausted))))"

definition JSON_parse :: "int list \<Rightarrow> json option" where
  "JSON_parse text =
     (case parse_value (Suc (length text)) (skip_ws text) of
        Parsed v rest \<Rightarrow> if skip_ws rest = [] then Some v else None
      | Malformed \<Rightarrow> None
      | Exhausted \<Rightarrow> None)"

subsection \<open>The response schema\<close>

text \<open>\<open>ANALYSIS_SCHEMA\<close>, without the descriptions.\<close>

datatype Schema =
    NUMBER
  | STRING
  | STRING_ENUM "string list"
  | ARRAY Schema
  | OBJECT "(string \<times> Schema) list" "string list"

definition ANALYSIS_SCHEMA :: Schema where
  "ANALYSIS_SCHEMA =
     OBJECT
       [(''atsScore'', NUMBER),
        (''parsabilityScore'', NUMBER),
        (''keywordMatchScore'', NUMBER),
        (''candidateName'', STRING),
        (''candidateTitle'', STRING),
        (''contactInfo'',
           OBJECT [(''email'', STRING), (''phone'', STRING), (''location'', STRING)]
             [''email'', ''phone'', ''location'']),
        (''professionalSummary'', STRING),
        (''workExperience'',
           ARRAY (OBJECT
             [(''role'', STRING), (''company'', STRING), (''duration'', STRING),
              (''description'', ARRAY STRING)]
             [''role'', ''company'', ''duration'', ''description''])),
        (''extractedSkills'', ARRAY STRING),
        (''missingKeywords'', ARRAY STRING),
        (''strengths'', ARRAY STRING),
        (''weaknesses'', ARRAY STRING),
        (''formattingIssues'', ARRAY STRING),
        (''improvementPlan'',
           ARRAY (OBJECT
             [(''priority'', STRING_ENUM [''High'', ''Medium'', ''Low'']),
              (''category'', STRING_ENUM [''Content'', ''Keywords'', ''Formatting'']),
              (''action'', STRING),
              (''explanation'', STRING),
              (''expectedBenefit'', STRING)]
             [''priority'', ''category'', ''action'', ''explanation'', ''expectedBenefit''])),
        (''skillBreakdown'',
           ARRAY (OBJECT [(''category'', STRING), (''score'', NUMBER)]
             [''category'', ''score'']))]
       [''atsScore'', ''parsabilityScore'', ''keywordMatchScore'', ''candidateName'',
        ''candidateTitle'', ''contactInfo'', ''professionalSummary'', ''workExperience'',
        ''extractedSkills'', ''missingKeywords'', ''strengths'', ''weaknesses'',
        ''formattingIssues'', ''improvementPlan'', ''skillBreakdown'']"

text \<open>
  Modelled from the spec: what "a payload satisfying the schema" means. The repository
  holds the schema and passes it to the service; it has no validator. A value conforms to
  an object schema when every required property is present and every listed property
  that is present conforms to its own schema.
\<close>

definition get_property :: "(int list \<times> json) list \<Rightarrow> string \<Rightarrow> json option" where
  "get_property kvs k = map_of kvs (units k)"

fun conforms :: "Schema \<Rightarrow> json \<Rightarrow> bool" where
  "conforms NUMBER j = (case j of JNumber lexeme \<Rightarrow> True | _ \<Rightarrow> False)"
| "conforms STRING j = (case j of JString s \<Rightarrow> True | _ \<Rightarrow> False)"
| "conforms (STRING_ENUM allowed) j =
     (case j of JString s \<Rightarrow> s \<in> set (map units allowed) | _ \<Rightarrow> False)"
| "conforms (ARRAY items) j =
     (case j of JArray vs \<Rightarrow> list_all (conforms items) vs | _ \<Rightarrow> False)"
| "conforms (OBJECT properties required) j =
     (case j of
        JObject kvs \<Rightarrow>
          list_all (\<lambda>k. get_property kvs k \<noteq> None) required
          \<and> list_all (\<lambda>(k, sch). case get_property kvs k of
                                    None \<Rightarrow> True
                                  | Some v \<Rightarrow> conforms sch v) properties
      | _ \<Rightarrow> False)"

definition missing_required :: "Schema \<Rightarrow> json \<Rightarrow> string list" where
  "missing_required sch j =
     (case sch of
        OBJECT properties required \<Rightarrow>
          (case j of
             JObject kvs \<Rightarrow> filter (\<lambda>k. get_property kvs k = None) required
           | _ \<Rightarrow> required)
      | _ \<Rightarrow> [])"

subsection \<open>analyzeResumeWithGemini\<close>

text \<open>
  \<open>import.meta.env\<close>, of which the one variable \<open>VITE_API_KEY\<close> is read, and the
  request handed to \<open>generateContent\<close> (the sampling temperature 0.1, a floating point
  constant, is left out).
\<close>

record ImportMetaEnv =
  VITE_API_KEY :: "string option"

record Request =
  model :: string
  mimeType :: string
  inline_data :: string
  text_part :: string
  responseMimeType :: string
  responseSchema :: Schema

text \<open>
  What the function throws: an \<open>Error\<close> with a message, the \<open>SyntaxError\<close> of
  \<open>JSON.parse\<close>, or whatever the service call rejected with.
\<close>

datatype 'e Thrown = Error string | SyntaxError | Rejected 'e

text \<open>\<open>!s\<close> for a string that may be undefined.\<close>

definition falsy :: "'a list option \<Rightarrow> bool" where
  "falsy s = (case s of None \<Rightarrow> True | Some t \<Rightarrow> t = [])"

text \<open>
  \<open>env\<close> is \<open>import.meta.env\<close>; \<open>reply\<close> is the outcome of the one service call, a
  rejection or a response with its \<open>text\<close>, read only when the request is issued. The
  function returns the requests it has issued and its own outcome. The \<open>catch\<close> block
  logs and rethrows what it caught.
\<close>

definition analyzeResumeWithGemini ::
  "ImportMetaEnv \<Rightarrow> string \<Rightarrow> ('e + int list option)
     \<Rightarrow> Request list \<times> ('e Thrown + json)"
where
  "analyzeResumeWithGemini env base64Pdf reply =
     (let apiKey = VITE_API_KEY env
      in if falsy apiKey
         then ([], Inl (Error (''API Key is missing. ''
                 @ ''Please check your environment configuration.'')))
         else
           (let request =
                  \<lparr> model = ''gemini-2.5-flash'',
                    mimeType = ''application/pdf'',
                    inline_data = base64Pdf,
                    text_part = ''PLACE YOUR PROMPT FOR RESUME ANALYSIS HERE'',
                    responseMimeType = ''application/json'',
                    responseSchema = ANALYSIS_SCHEMA \<rparr>
            in case reply of
                 Inl e \<Rightarrow> ([request], Inl (Rejected e))
               | Inr text \<Rightarrow>
                   if falsy text
                   then ([request], Inl (Error ''No response extracted from Gemini.''))
                   else (case JSON_parse (case text of Some t \<Rightarrow> t | None \<Rightarrow> []) of
                           None \<Rightarrow> ([request], Inl SyntaxError)
                         | Some v \<Rightarrow> ([request], Inr v))))"

definition example_text :: "int list" where
  \<open>example_text = units
    (''{"atsScore":72,"parsabilityScore":65,"keywordMatchScore":58,''
     @ ''"candidateName":"Ada","candidateTitle":"Engineer",''
     @ ''"contactInfo":{"email":"","phone":"","location":""},''
     @ ''"professionalSummary":"","workExperience":[],"extractedSkills":[],''
     @ ''"missingKeywords":["Kubernetes","Terraform"],''
     @ ''"strengths":[],"weaknesses":[],"formattingIssues":[],''
     @ ''"improvementPlan":[{"priority":"High","category":"Keywords",''
     @ ''"action":"Add cloud tooling","explanation":"","expectedBenefit":""}],''
     @ ''"skillBreakdown":[]}'')\<close>


section \<open>Upload surface (src/components/FileUpload.tsx)\<close>

text \<open>
  A browser \<open>File\<close>: its name, its MIME type and its size in bytes. The handlers act on
  the outside world in two ways only: they call \<open>onFileSelect\<close> or they raise an alert.
  The visual state \<open>isDragging\<close> is left out.
\<close>

record File =
  name :: string
  type :: string
  size_field :: nat

datatype Effect = OnFileSelect File | Alert string

text \<open>
  \<open>files\<close> is the \<open>FileList\<close> of the event, \<open>None\<close> when the browser gives none; only
  its first element is looked at.
\<close>

definition handleDrop :: "bool \<Rightarrow> File list option \<Rightarrow> Effect list" where
  "handleDrop disabled files =
     (if disabled then []
      else case files of
          None \<Rightarrow> []
        | Some [] \<Rightarrow> []
        | Some (file # _) \<Rightarrow>
            if File.type file = ''application/pdf'' then [OnFileSelect file]
            else [Alert ''Please upload a valid PDF file.''])"

definition handleInputChange :: "File list option \<Rightarrow> Effect list" where
  "handleInputChange files =
     (case files of
          None \<Rightarrow> []
        | Some [] \<Rightarrow> []
        | Some (file # _) \<Rightarrow>
            if File.type file = ''application/pdf'' then [OnFileSelect file]
            else [Alert ''Please upload a valid PDF file.''])"

text \<open>The limit the component prints below the drop zone: "PDF files only (Max 5MB)".\<close>

definition advertised_max_bytes :: nat where
  "advertised_max_bytes = 5 * 1024 * 1024"


section \<open>Dashboard view: derived feedback (src/components/AnalysisDashboard.tsx)\<close>

datatype Tab = TabAll | TabContent | TabKeywords | TabFormatting

fun tab_text :: "Tab \<Rightarrow> string" where
  "tab_text TabAll = ''All''"
| "tab_text TabContent = ''Content''"
| "tab_text TabKeywords = ''Keywords''"
| "tab_text TabFormatting = ''Formatting''"

datatype ItemType = missing_keywords | formatting | plan

record FeedbackItem =
  type :: ItemType
  priority :: Priority
  category :: Category
  title :: string
  description :: string
  keywords_field :: "string list option"
  benefit :: "string option"
  section_field :: string

subsection \<open>String operations of the platform\<close>

text \<open>
  \<open>String.prototype.toLowerCase\<close> on the Latin-1 range: the letters A to Z and the
  accented capitals U+00C0 to U+00DE (the multiplication sign U+00D7 apart) move up by 32.
\<close>

definition lower_char :: "char \<Rightarrow> char" where
  "lower_char c =
     (let n = (of_char c :: nat)
      in if (65 \<le> n \<and> n \<le> 90) \<or> (192 \<le> n \<and> n \<le> 222 \<and> n \<noteq> 215)
         then char_of (n + 32) else c)"

definition toLowerCase :: "string \<Rightarrow> string" where
  "toLowerCase s = map lower_char s"

fun startsWith :: "string \<Rightarrow> string \<Rightarrow> bool" where
  "startsWith s [] = True"
| "startsWith [] (p # ps) = False"
| "startsWith (c # cs) (p # ps) = (c = p \<and> startsWith cs ps)"

text \<open>\<open>String.prototype.includes\<close>: the search string occurs at some position.\<close>

fun includes_str :: "string \<Rightarrow> string \<Rightarrow> bool" where
  "includes_str [] sub = startsWith [] sub"
| "includes_str (c # cs) sub = (startsWith (c # cs) sub \<or> includes_str cs sub)"

text \<open>Decimal rendering of a length inside a template literal.\<close>

fun decimal :: "nat \<Rightarrow> string" where
  "decimal n =
     (if n < 10 then [char_of (48 + n)]
      else decimal (n div 10) @ [char_of (48 + n mod 10)])"

declare decimal.simps [simp del]

subsection \<open>getFilteredFeedback\<close>

definition push :: "'a list \<Rightarrow> 'a \<Rightarrow> 'a list" where
  "push items x = items @ [x]"

definition missing_keywords_item :: "AnalysisResult \<Rightarrow> FeedbackItem" where
  "missing_keywords_item data =
     \<lparr> type = missing_keywords,
       priority = High,
       category = Keywords,
       title = ''Missing Critical Keywords'',
       description = ''Your resume is missing '' @ decimal (length (missingKeywords data))
         @ '' top keywords found in typical job descriptions for this role. ''
         @ ''Adding these can boost your score significantly.'',
       keywords_field = Some (missingKeywords data),
       benefit = None,
       section_field = ''skills'' \<rparr>"

definition formatting_item :: "string \<Rightarrow> FeedbackItem" where
  "formatting_item issue =
     \<lparr> type = formatting,
       priority = Medium,
       category = Formatting,
       title = ''Formatting Issue'',
       description = issue,
       keywords_field = None,
       benefit = None,
       section_field = ''document'' \<rparr>"

text \<open>The section label of one plan entry (lines 91 to 96).\<close>

definition plan_section :: "PlanEntry \<Rightarrow> string" where
  "plan_section p =
     (let section0 = ''document'';
          lowerAction = toLowerCase (action p)
      in if PlanEntry.category p = Keywords then ''skills''
         else if includes_str lowerAction ''summary'' \<or> includes_str lowerAction ''objective''
           then ''summary''
         else if PlanEntry.category p = Content then ''experience''
         else section0)"

definition plan_item :: "PlanEntry \<Rightarrow> FeedbackItem" where
  "plan_item p =
     \<lparr> type = plan,
       priority = PlanEntry.priority p,
       category = PlanEntry.category p,
       title = action p,
       description = explanation p,
       keywords_field = None,
       benefit = Some (expectedBenefit p),
       section_field = plan_section p \<rparr>"

text \<open>
  The list \<open>items\<close> is threaded through the three stages as the source does with
  \<open>items.push\<close>; \<open>forEach\<close> is a left-to-right fold.
\<close>

definition build_items :: "AnalysisResult \<Rightarrow> FeedbackItem list" where
  "build_items data =
     (let items0 = [];
          items1 = (if length (missingKeywords data) > 0
                    then push items0 (missing_keywords_item data) else items0);
          items2 = fold (\<lambda>issue items. push items (formatting_item issue))
                     (formattingIssues data) items1;
          items3 = fold (\<lambda>p items. push items (plan_item p))
                     (improvementPlan data) items2
      in items3)"

definition getFilteredFeedback :: "AnalysisResult \<Rightarrow> Tab \<Rightarrow> FeedbackItem list" where
  "getFilteredFeedback data activeTab =
     (let items = build_items data
      in if tab_text activeTab = ''All'' then items
         else filter (\<lambda>item. category_text (FeedbackItem.category item) = tab_text activeTab)
                items)"

text \<open>The three counters shown on the tabs (lines 116 to 118).\<close>

definition countContent :: "AnalysisResult \<Rightarrow> nat" where
  "countContent data =
     length (filter (\<lambda>i. category_text (PlanEntry.category i) = ''Content'')
       (improvementPlan data))"

definition countKeywords :: "AnalysisResult \<Rightarrow> nat" where
  "countKeywords data =
     (if length (missingKeywords data) > 0 then 1 else 0)
     + length (filter (\<lambda>i. category_text (PlanEntry.category i) = ''Keywords'')
         (improvementPlan data))"

definition countFormatting :: "AnalysisResult \<Rightarrow> nat" where
  "countFormatting data =
     length (formattingIssues data)
     + length (filter (\<lambda>i. category_text (PlanEntry.category i) = ''Formatting'')
         (improvementPlan data))"


text \<open>
  The decision order of the section label as the specification words it, for comparison:
  "contains" is tested on the action text as it stands.
\<close>

definition section_as_specified :: "PlanEntry \<Rightarrow> string" where
  "section_as_specified p =
     (if PlanEntry.category p = Keywords then ''skills''
      else if includes_str (action p) ''summary'' \<or> includes_str (action p) ''objective''
        then ''summary''
      else if PlanEntry.category p = Content then ''experience''
      else ''document'')"

text \<open>The example scenario of the specification (section 8).\<close>

definition example_result :: AnalysisResult where
  "example_result =
     \<lparr> atsScore = 72, parsabilityScore = 0, keywordMatchScore = 0,
       candidateName = '''', candidateTitle = '''',
       contactInfo = \<lparr> email = '''', phone = '''', location = '''' \<rparr>,
       professionalSummary = '''',
       workExperience = [], extractedSkills = [],
       missingKeywords = [''Kubernetes'', ''Terraform''],
       strengths = [], weaknesses = [],
       formattingIssues = [],
       improvementPlan =
         [\<lparr> PlanEntry.priority = High, PlanEntry.category = Keywords,
            action = ''Add cloud tooling'', explanation = '''', expectedBenefit = '''' \<rparr>],
       skillBreakdown = [] \<rparr>"


section \<open>Application state machine (the component \<open>App\<close>, src/unnamed/part_000)\<close>

record App =
  status :: AnalysisStatus
  result :: "AnalysisResult option"
  errorMsg :: "string option"

definition initial :: App where
  "initial = \<lparr> status = idle, result = None, errorMsg = None \<rparr>"

text \<open>
  What the rejection handler inspects of the value it catches: whether it is an instance
  of \<open>Error\<close> and, if so, its message.
\<close>

datatype Caught = ErrorInstance string | NotAnError

definition fallback_message :: string where
  "fallback_message = ''Failed to analyze resume. Please try again.''"

text \<open>The two state changes at the head of \<open>handleFileSelect\<close>.\<close>

definition handleFileSelect_begin :: "App \<Rightarrow> App" where
  "handleFileSelect_begin st = st\<lparr> status := analyzing, errorMsg := None \<rparr>"

text \<open>The outer \<open>catch\<close>: setting up the reader threw.\<close>

definition handleFileSelect_catch :: "App \<Rightarrow> App" where
  "handleFileSelect_catch st =
     st\<lparr> status := error, errorMsg := Some ''An unexpected error occurred.'' \<rparr>"

text \<open>
  The functional update after the awaited call has resolved with \<open>data\<close>. The value is
  what \<open>JSON.parse\<close> returned, passed on under the type assertion of the client and
  stored as it is: \<open>None\<close> is \<open>null\<close> (the response text \<open>null\<close>), any other value is
  taken for an \<open>AnalysisResult\<close>.
\<close>

definition on_resolved :: "AnalysisResult option \<Rightarrow> App \<Rightarrow> App" where
  "on_resolved data st =
     (if status st = analyzing then st\<lparr> result := data, status := success \<rparr>
      else st)"

text \<open>The functional update after the awaited call has rejected with \<open>err\<close>.\<close>

definition on_rejected :: "Caught \<Rightarrow> App \<Rightarrow> App" where
  "on_rejected err st =
     (if status st = analyzing then
        (let errorMessage =
               (case err of ErrorInstance m \<Rightarrow> m | NotAnError \<Rightarrow> fallback_message)
         in st\<lparr> errorMsg :=
                  Some (if errorMessage \<noteq> [] then errorMessage else fallback_message),
               status := error \<rparr>)
      else st)"

definition reader_onerror :: "App \<Rightarrow> App" where
  "reader_onerror st = st\<lparr> status := error, errorMsg := Some ''Failed to read file.'' \<rparr>"

definition cancelAnalysis :: "App \<Rightarrow> App" where
  "cancelAnalysis st = st\<lparr> status := idle, result := None, errorMsg := None \<rparr>"

definition resetAnalysis :: "App \<Rightarrow> App" where
  "resetAnalysis st = st\<lparr> status := idle, result := None, errorMsg := None \<rparr>"

subsection \<open>The application with its operations in flight\<close>

text \<open>
  Besides the three state variables the running application has file reads that have been
  started and not finished, and analysis calls that have been issued and not settled.
  A read ends in \<open>onload\<close>, which issues the call, or in \<open>onerror\<close>.
\<close>

record World =
  app :: App
  reading :: nat
  calling :: nat

definition initial_world :: World where
  "initial_world = \<lparr> app = initial, reading = 0, calling = 0 \<rparr>"

datatype Gesture = Drop "File list option" | Choose "File list option"

text \<open>
  An upload carries, besides the gesture, whether setting up the file reader throws.
\<close>

datatype Event =
    Upload Gesture bool
  | ReaderLoad
  | ReaderError
  | CallResolved "AnalysisResult option"
  | CallRejected Caught
  | CancelClick
  | ResetClick

text \<open>\<open>App\<close> renders \<open>FileUpload\<close> without the \<open>disabled\<close> property.\<close>

fun upload_effects :: "Gesture \<Rightarrow> Effect list" where
  "upload_effects (Drop files) = handleDrop False files"
| "upload_effects (Choose files) = handleInputChange files"

definition handleFileSelect :: "bool \<Rightarrow> File \<Rightarrow> World \<Rightarrow> World" where
  "handleFileSelect throws file w =
     (if throws then w\<lparr> app := handleFileSelect_catch (handleFileSelect_begin (app w)) \<rparr>
      else w\<lparr> app := handleFileSelect_begin (app w), reading := reading w + 1 \<rparr>)"

fun run_effect :: "bool \<Rightarrow> Effect \<Rightarrow> World \<Rightarrow> World" where
  "run_effect throws (OnFileSelect file) w = handleFileSelect throws file w"
| "run_effect throws (Alert msg) w = w"

text \<open>
  One event, \<open>None\<close> when it cannot happen: the upload surface is rendered in state
  \<open>idle\<close> only, the cancel button in state \<open>analyzing\<close> only, the reset button on the error
  view and on the dashboard (rendered when the status is \<open>success\<close> and a result is held);
  a read or a call ends only if one is in flight.
\<close>

fun step :: "World \<Rightarrow> Event \<Rightarrow> World option" where
  "step w (Upload g throws) =
     (if status (app w) = idle then Some (fold (run_effect throws) (upload_effects g) w)
      else None)"
| "step w ReaderLoad =
     (if 0 < reading w then Some (w\<lparr> reading := reading w - 1, calling := calling w + 1 \<rparr>)
      else None)"
| "step w ReaderError =
     (if 0 < reading w
      then Some (w\<lparr> app := reader_onerror (app w), reading := reading w - 1 \<rparr>)
      else None)"
| "step w (CallResolved data) =
     (if 0 < calling w
      then Some (w\<lparr> app := on_resolved data (app w), calling := calling w - 1 \<rparr>)
      else None)"
| "step w (CallRejected err) =
     (if 0 < calling w
      then Some (w\<lparr> app := on_rejected err (app w), calling := calling w - 1 \<rparr>)
      else None)"
| "step w CancelClick =
     (if status (app w) = analyzing then Some (w\<lparr> app := cancelAnalysis (app w) \<rparr>)
      else None)"
| "step w ResetClick =
     (if status (app w) = error \<or> (status (app w) = success \<and> result (app w) \<noteq> None)
      then Some (w\<lparr> app := resetAnalysis (app w) \<rparr>)
      else None)"

fun run :: "World \<Rightarrow> Event list \<Rightarrow> World option" where
  "run w [] = Some w"
| "run w (e # es) = (case step w e of None \<Rightarrow> None | Some w' \<Rightarrow> run w' es)"

fun is_resolution :: "Event \<Rightarrow> bool" where
  "is_resolution (CallResolved data) = True"
| "is_resolution (CallRejected err) = True"
| "is_resolution e = False"

fun is_upload :: "Event \<Rightarrow> bool" where
  "is_upload (Upload g throws) = True"
| "is_upload e = False"

definition example_pdf :: File where
  "example_pdf =
     \<lparr> name = ''resume.pdf'', File.type = ''application/pdf'', size_field = 120000 \<rparr>"


definition second_pdf :: File where
  "second_pdf =
     \<lparr> name = ''other.pdf'', File.type = ''application/pdf'', size_field = 98000 \<rparr>"

definition oversized_pdf :: File where
  "oversized_pdf =
     \<lparr> name = ''resume.pdf'', File.type = ''application/pdf'', size_field = 6291456 \<rparr>"

text \<open>The invariant in question: a result is held exactly in state \<open>success\<close>.\<close>

definition result_iff_success :: "App \<Rightarrow> bool" where
  "result_iff_success st = ((result st \<noteq> None) = (status st = success))"


section \<open>Properties of the derived feedback\<close>

lemma fold_push: "fold (\<lambda>x items. push items (f x)) xs acc = acc @ map f xs"
  by (induction xs arbitrary: acc) (simp_all add: push_def)

lemma build_items_eq:
  "build_items data =
     (if missingKeywords data = [] then [] else [missing_keywords_item data])
     @ map formatting_item (formattingIssues data)
     @ map plan_item (improvementPlan data)"
  unfolding build_items_def Let_def fold_push by (simp add: push_def)

lemma category_split:
  "length ps =
     length (filter (\<lambda>i. category_text (PlanEntry.category i) = ''Content'') ps)
   + length (filter (\<lambda>i. category_text (PlanEntry.category i) = ''Keywords'') ps)
   + length (filter (\<lambda>i. category_text (PlanEntry.category i) = ''Formatting'') ps)"
proof (induction ps)
  case Nil
  show ?case by simp
next
  case (Cons p ps)
  then show ?case by (cases "PlanEntry.category p") simp_all
qed

text \<open>
  C2. The list shown on tab "All" has as many items as the three counters of the tabs
  Content, Keywords and Formatting add up to.
\<close>

theorem all_tab_count_is_sum:
  "length (getFilteredFeedback data TabAll)
     = countContent data + countKeywords data + countFormatting data"
proof -
  have "length (getFilteredFeedback data TabAll)
          = (if missingKeywords data = [] then 0 else 1)
            + length (formattingIssues data) + length (improvementPlan data)"
    by (simp add: getFilteredFeedback_def build_items_eq)
  also have "\<dots> = countContent data + countKeywords data + countFormatting data"
    using category_split [of "improvementPlan data"]
    by (simp add: countContent_def countKeywords_def countFormatting_def)
  finally show ?thesis .
qed

lemma tab_category_eq:
  "tab_text t = category_text X \<Longrightarrow> (category_text Y = tab_text t) = (Y = X)"
  by (cases t; cases X; cases Y) simp_all

text \<open>
  C3. On the tab that carries the name of a category \<open>X\<close>, the list is the "All" list
  cut down to the items whose category is \<open>X\<close>: the same items, as often, in the same
  relative order. On the tab "All" the list is the derived list itself.
\<close>

theorem filter_by_tab:
  "(tab_text t = category_text X \<longrightarrow>
      getFilteredFeedback data t
        = filter (\<lambda>item. FeedbackItem.category item = X) (getFilteredFeedback data TabAll)
      \<and> subseq (getFilteredFeedback data t) (getFilteredFeedback data TabAll))
   \<and> getFilteredFeedback data TabAll = build_items data"
proof -
  have a: "getFilteredFeedback data TabAll = build_items data"
    by (simp add: getFilteredFeedback_def)
  have f: "getFilteredFeedback data t
       = filter (\<lambda>item. FeedbackItem.category item = X) (getFilteredFeedback data TabAll)"
    if t: "tab_text t = category_text X"
  proof -
    from t have "tab_text t \<noteq> ''All''" by (cases X) simp_all
    then show ?thesis
      using tab_category_eq [OF t] by (simp add: getFilteredFeedback_def a)
  qed
  have "subseq (getFilteredFeedback data t) (getFilteredFeedback data TabAll)"
    if t: "tab_text t = category_text X"
    unfolding f [OF t] by (rule subseq_filter_left)
  with a f show ?thesis by blast
qed

theorem filter_by_tab_witness:
  "tab_text TabKeywords = category_text Keywords
   \<and> getFilteredFeedback example_result TabKeywords
       = filter (\<lambda>item. FeedbackItem.category item = Keywords)
           (getFilteredFeedback example_result TabAll)
   \<and> length (getFilteredFeedback example_result TabKeywords) = 2
   \<and> getFilteredFeedback example_result TabFormatting = []"
  using filter_by_tab [of TabKeywords Keywords example_result]
  by (simp add: getFilteredFeedback_def build_items_eq example_result_def
      missing_keywords_item_def plan_item_def)

text \<open>
  C4. The derived list is, in this order: the one "Missing Critical Keywords" item
  (priority High, category Keywords, carrying the whole keyword list) when
  \<open>missingKeywords\<close> is not empty and nothing when it is empty; one item of priority
  Medium and category Formatting for each formatting issue; one item for each entry of the
  improvement plan, with the entry's own priority and category. The number of items of type
  \<open>missing_keywords\<close> is one or zero accordingly, whatever the other fields hold.
\<close>

theorem derived_feedback_order:
  "getFilteredFeedback data TabAll =
     (if missingKeywords data = [] then []
      else [\<lparr> type = missing_keywords, priority = High, category = Keywords,
              title = ''Missing Critical Keywords'',
              description =
                ''Your resume is missing '' @ decimal (length (missingKeywords data))
                @ '' top keywords found in typical job descriptions for this role. ''
                @ ''Adding these can boost your score significantly.'',
              keywords_field = Some (missingKeywords data),
              benefit = None, section_field = ''skills'' \<rparr>])
     @ map (\<lambda>issue. \<lparr> type = formatting, priority = Medium, category = Formatting,
              title = ''Formatting Issue'', description = issue,
              keywords_field = None, benefit = None, section_field = ''document'' \<rparr>)
         (formattingIssues data)
     @ map (\<lambda>p. \<lparr> type = plan, priority = PlanEntry.priority p,
              category = PlanEntry.category p,
              title = action p, description = explanation p,
              keywords_field = None, benefit = Some (expectedBenefit p),
              section_field = plan_section p \<rparr>)
         (improvementPlan data)
   \<and> length (filter (\<lambda>item. type item = missing_keywords) (getFilteredFeedback data TabAll))
       = (if missingKeywords data = [] then 0 else 1)"
proof -
  have items: "getFilteredFeedback data TabAll =
     (if missingKeywords data = [] then [] else [missing_keywords_item data])
     @ map formatting_item (formattingIssues data)
     @ map plan_item (improvementPlan data)"
    by (simp add: getFilteredFeedback_def build_items_eq)
  have no_f: "filter (\<lambda>item. type item = missing_keywords) (map formatting_item xs) = []"
    for xs by (induction xs) (simp_all add: formatting_item_def)
  have no_p: "filter (\<lambda>item. type item = missing_keywords) (map plan_item ps) = []"
    for ps by (induction ps) (simp_all add: plan_item_def)
  have count: "length (filter (\<lambda>item. type item = missing_keywords)
                 (getFilteredFeedback data TabAll))
       = (if missingKeywords data = [] then 0 else 1)"
    unfolding items by (simp add: no_f no_p) (simp add: missing_keywords_item_def)
  show ?thesis
    using items count
    unfolding missing_keywords_item_def formatting_item_def plan_item_def by simp
qed

lemma startsWith_prefix: "startsWith s p = prefix p s"
  by (induction s p rule: startsWith.induct) auto

lemma includes_str_sublist: "includes_str s sub = sublist sub s"
  by (induction s) (simp_all add: startsWith_prefix sublist_Cons_right)

text \<open>
  C5, as the specification words it, fails: the source lower-cases the action text before
  it looks for "summary" and "objective", so an entry of category Content whose action is
  "Rewrite Summary" is labelled \<open>summary\<close>, where containment in the text as it stands
  gives \<open>experience\<close>.
\<close>

theorem section_specified_counterexample:
  "plan_section \<lparr> PlanEntry.priority = High, PlanEntry.category = Content,
       action = ''Rewrite Summary'', explanation = '''', expectedBenefit = '''' \<rparr>
     = ''summary''
   \<and> section_as_specified \<lparr> PlanEntry.priority = High, PlanEntry.category = Content,
       action = ''Rewrite Summary'', explanation = '''', expectedBenefit = '''' \<rparr>
     = ''experience''"
  by code_simp

text \<open>
  C5, amended. The item derived from the \<open>i\<close>-th entry of the improvement plan stands
  after the keyword item (if any) and the formatting items, and its section label follows
  the decision order: category Keywords gives \<open>skills\<close>; otherwise an action text that,
  lower-cased, contains "summary" or "objective" gives \<open>summary\<close>; otherwise category
  Content gives \<open>experience\<close>; everything else gives \<open>document\<close>.
\<close>

theorem plan_entry_section:
  assumes "i < length (improvementPlan data)"
  shows "section_field (getFilteredFeedback data TabAll
           ! ((if missingKeywords data = [] then 0 else 1)
              + length (formattingIssues data) + i))
     = (if PlanEntry.category (improvementPlan data ! i) = Keywords then ''skills''
        else if sublist ''summary'' (toLowerCase (action (improvementPlan data ! i)))
              \<or> sublist ''objective'' (toLowerCase (action (improvementPlan data ! i)))
          then ''summary''
        else if PlanEntry.category (improvementPlan data ! i) = Content then ''experience''
        else ''document'')"
proof -
  have "getFilteredFeedback data TabAll
           ! ((if missingKeywords data = [] then 0 else 1)
              + length (formattingIssues data) + i)
        = plan_item (improvementPlan data ! i)"
    using assms
    by (simp add: getFilteredFeedback_def build_items_eq nth_append)
  then show ?thesis
    by (simp add: plan_item_def plan_section_def includes_str_sublist)
qed

theorem plan_entry_section_witness:
  "(0::nat) < length (improvementPlan example_result)
   \<and> section_field (getFilteredFeedback example_result TabAll ! 1) = ''skills''"
  using plan_entry_section [of 0 example_result]
  by (simp add: example_result_def)


section \<open>Properties of the upload surface\<close>

text \<open>
  C8. The callback \<open>onFileSelect\<close> is called for files of MIME type
  \<open>application/pdf\<close> only. When the file chosen or dropped has another type, the handler
  raises the alert and nothing else, and the application is left as it was: no read is
  started and no analysis call is issued.
\<close>

theorem non_pdf_rejected:
  "(OnFileSelect f \<in> set (handleDrop disabled files)
      \<or> OnFileSelect f \<in> set (handleInputChange files)
      \<longrightarrow> File.type f = ''application/pdf'')
   \<and> (files = Some (file # rest) \<and> File.type file \<noteq> ''application/pdf''
      \<longrightarrow> handleInputChange files = [Alert ''Please upload a valid PDF file.'']
        \<and> handleDrop disabled files
            = (if disabled then [] else [Alert ''Please upload a valid PDF file.''])
        \<and> (status (app w) = idle \<longrightarrow>
              step w (Upload (Drop files) throws) = Some w
            \<and> step w (Upload (Choose files) throws) = Some w))"
  by (auto simp: handleDrop_def handleInputChange_def
      split: option.splits list.splits if_splits)

theorem non_pdf_rejected_witness:
  "Some [\<lparr> name = ''photo.png'', File.type = ''image/png'', size_field = 2048 \<rparr>]
     = Some (\<lparr> name = ''photo.png'', File.type = ''image/png'', size_field = 2048 \<rparr> # [])
   \<and> File.type \<lparr> name = ''photo.png'', File.type = ''image/png'', size_field = 2048 \<rparr>
       \<noteq> ''application/pdf''
   \<and> status (app initial_world) = idle
   \<and> step initial_world
        (Upload (Drop (Some [\<lparr> name = ''photo.png'', File.type = ''image/png'',
                              size_field = 2048 \<rparr>])) False)
       = Some initial_world
   \<and> OnFileSelect example_pdf \<in> set (handleInputChange (Some [example_pdf]))
   \<and> File.type example_pdf = ''application/pdf''"
  using non_pdf_rejected [of example_pdf False "Some [example_pdf]"]
    non_pdf_rejected [of _ False
      "Some [\<lparr> name = ''photo.png'', File.type = ''image/png'', size_field = 2048 \<rparr>]"
      "\<lparr> name = ''photo.png'', File.type = ''image/png'', size_field = 2048 \<rparr>"
      "[]" initial_world False]
  by (simp add: initial_world_def initial_def example_pdf_def handleInputChange_def)

text \<open>
  C9 does not hold of the code: the handlers look at the MIME type only. A PDF of 6 MiB,
  above the 5 MB the component advertises, is handed to \<open>onFileSelect\<close>, and the
  application starts reading it for analysis.
\<close>

theorem oversized_pdf_accepted:
  "advertised_max_bytes < size_field oversized_pdf
   \<and> handleInputChange (Some [oversized_pdf]) = [OnFileSelect oversized_pdf]
   \<and> handleDrop False (Some [oversized_pdf]) = [OnFileSelect oversized_pdf]
   \<and> step initial_world (Upload (Choose (Some [oversized_pdf])) False)
       = Some \<lparr> app = \<lparr> status = analyzing, result = None, errorMsg = None \<rparr>,
                reading = 1, calling = 0 \<rparr>"
  by (simp add: advertised_max_bytes_def oversized_pdf_def handleInputChange_def
      handleDrop_def handleFileSelect_def handleFileSelect_begin_def
      initial_world_def initial_def)


section \<open>Properties of the application state machine\<close>

lemma resolution_keeps:
  "status (app w) \<noteq> analyzing \<Longrightarrow> is_resolution e \<Longrightarrow> step w e = Some w' \<Longrightarrow>
     app w' = app w"
  by (cases e) (auto simp: on_resolved_def on_rejected_def split: if_splits)

lemma run_resolutions:
  "status (app w) \<noteq> analyzing \<Longrightarrow> \<forall>e\<in>set es. is_resolution e \<Longrightarrow>
     run w es = Some w' \<Longrightarrow> app w' = app w"
proof (induction es arbitrary: w)
  case Nil
  then show ?case by simp
next
  case (Cons e es)
  from Cons.prems(3) obtain w1 where s: "step w e = Some w1" and r: "run w1 es = Some w'"
    by (auto split: option.splits)
  from Cons.prems(1,2) s have a: "app w1 = app w"
    by (auto intro: resolution_keeps)
  with Cons.IH [of w1] Cons.prems r show ?case by simp
qed

lemma quiet_step:
  "status (app w) \<noteq> analyzing \<Longrightarrow> status (app w) \<noteq> success \<Longrightarrow> result (app w) = None \<Longrightarrow>
     \<not> is_upload e \<Longrightarrow> step w e = Some w' \<Longrightarrow>
     status (app w') \<noteq> analyzing \<and> status (app w') \<noteq> success \<and> result (app w') = None"
  by (cases e)
     (auto simp: on_resolved_def on_rejected_def reader_onerror_def resetAnalysis_def
        split: if_splits)

lemma quiet_run:
  "status (app w) \<noteq> analyzing \<Longrightarrow> status (app w) \<noteq> success \<Longrightarrow> result (app w) = None \<Longrightarrow>
     \<forall>e\<in>set es. \<not> is_upload e \<Longrightarrow> run w es = Some w' \<Longrightarrow>
     status (app w') \<noteq> success \<and> result (app w') = None"
proof (induction es arbitrary: w)
  case Nil
  then show ?case by simp
next
  case (Cons e es)
  from Cons.prems(5) obtain w1 where s: "step w e = Some w1" and r: "run w1 es = Some w'"
    by (auto split: option.splits)
  from Cons.prems(4) have e: "\<not> is_upload e" and es: "\<forall>e\<in>set es. \<not> is_upload e"
    by simp_all
  from quiet_step [OF Cons.prems(1) Cons.prems(2) Cons.prems(3) e s]
  show ?case using Cons.IH [OF _ _ _ es r] by blast
qed

text \<open>
  What the guard does ensure. The two updates made when the analysis call settles change
  nothing unless the status is \<open>analyzing\<close> at that moment. A response that arrives
  after a cancel finds the status \<open>idle\<close> and leaves it there, with no result. Once a
  cancel or a reset has been clicked, any sequence of late resolutions and rejections
  leaves the three state variables as the click left them, and the status does not become
  \<open>success\<close> and no result is held until a file is chosen again.
\<close>

lemma guard_outside_analyzing:
  "(status st \<noteq> analyzing \<longrightarrow> on_resolved data st = st \<and> on_rejected err st = st)
   \<and> status (on_resolved data (cancelAnalysis st)) = idle
   \<and> result (on_resolved data (cancelAnalysis st)) = None
   \<and> ((step w CancelClick = Some w1 \<or> step w ResetClick = Some w1)
        \<and> (\<forall>e\<in>set es. is_resolution e) \<and> run w1 es = Some w2
      \<longrightarrow> app w2 = app w1 \<and> status (app w2) = idle \<and> result (app w2) = None)
   \<and> ((step w CancelClick = Some w1 \<or> step w ResetClick = Some w1)
        \<and> (\<forall>e\<in>set es'. \<not> is_upload e) \<and> run w1 es' = Some w3
      \<longrightarrow> status (app w3) \<noteq> success \<and> result (app w3) = None)"
proof -
  have 1: "status st \<noteq> analyzing \<longrightarrow> on_resolved data st = st \<and> on_rejected err st = st"
    by (simp add: on_resolved_def on_rejected_def)
  have 2: "status (on_resolved data (cancelAnalysis st)) = idle"
    and 3: "result (on_resolved data (cancelAnalysis st)) = None"
    by (simp_all add: on_resolved_def cancelAnalysis_def)
  have i: "status (app w1) = idle \<and> result (app w1) = None"
    if "step w CancelClick = Some w1 \<or> step w ResetClick = Some w1"
    using that by (auto simp: cancelAnalysis_def resetAnalysis_def split: if_splits)
  have 4: "app w2 = app w1 \<and> status (app w2) = idle \<and> result (app w2) = None"
    if c: "step w CancelClick = Some w1 \<or> step w ResetClick = Some w1"
      and es: "\<forall>e\<in>set es. is_resolution e" and r: "run w1 es = Some w2"
  proof -
    from i [OF c] have "status (app w1) \<noteq> analyzing" by simp
    from run_resolutions [OF this es r] i [OF c] show ?thesis by simp
  qed
  have 5: "status (app w3) \<noteq> success \<and> result (app w3) = None"
    if c: "step w CancelClick = Some w1 \<or> step w ResetClick = Some w1"
      and es: "\<forall>e\<in>set es'. \<not> is_upload e" and r: "run w1 es' = Some w3"
  proof -
    from i [OF c] have "status (app w1) \<noteq> analyzing" "status (app w1) \<noteq> success"
      "result (app w1) = None" by simp_all
    from quiet_run [OF this es r] show ?thesis .
  qed
  from 1 2 3 4 5 show ?thesis by blast
qed

text \<open>
  C6 does not hold of the code. The guard compares the status with \<open>analyzing\<close> and
  nothing tells one attempt from the next, so a response is dropped only while the status
  is something else. Trace: a file is chosen and read and its call is issued; the user
  cancels, which leaves the status \<open>idle\<close> with that call still in flight; the user
  chooses another file, and the status is \<open>analyzing\<close> again while the new file is being
  read; now the cancelled call resolves. Its response is applied: the status is
  \<open>success\<close> and the result held is the one of the cancelled call, while the read of the
  new file is still in flight.
\<close>

theorem stale_response_after_new_upload:
  "run initial_world
     [Upload (Choose (Some [example_pdf])) False, ReaderLoad, CancelClick]
   = Some \<lparr> app = \<lparr> status = idle, result = None, errorMsg = None \<rparr>,
            reading = 0, calling = 1 \<rparr>
   \<and> run initial_world
     [Upload (Choose (Some [example_pdf])) False, ReaderLoad, CancelClick,
      Upload (Choose (Some [second_pdf])) False, CallResolved (Some example_result)]
   = Some \<lparr> app = \<lparr> status = success, result = Some example_result, errorMsg = None \<rparr>,
            reading = 1, calling = 0 \<rparr>"
  by (simp add: initial_world_def initial_def example_pdf_def second_pdf_def
      handleInputChange_def handleFileSelect_def handleFileSelect_begin_def
      cancelAnalysis_def on_resolved_def)

text \<open>
  C10 does not hold of the code. \<open>reader.onerror\<close> sets the status to \<open>error\<close> whatever
  the status is and leaves the result alone, where the rejection handler beside it acts
  in state \<open>analyzing\<close> only. Trace: a file is chosen and read and its call is issued; the
  user cancels and chooses a second file; the first call resolves, which the guard takes
  for the running attempt; then the read of the second file fails. The status is
  \<open>error\<close> and the result of the first call is still held.
\<close>

theorem stale_result_after_read_error:
  "run initial_world
     [Upload (Choose (Some [example_pdf])) False, ReaderLoad, CancelClick,
      Upload (Choose (Some [example_pdf])) False, CallResolved (Some example_result),
      ReaderError]
   = Some \<lparr> app = \<lparr> status = error, result = Some example_result,
                     errorMsg = Some ''Failed to read file.'' \<rparr>,
            reading = 0, calling = 0 \<rparr>
   \<and> \<not> result_iff_success \<lparr> status = error, result = Some example_result,
                     errorMsg = Some ''Failed to read file.'' \<rparr>
   \<and> result_iff_success initial"
  by (simp add: initial_world_def initial_def example_pdf_def handleInputChange_def
      handleFileSelect_def handleFileSelect_begin_def cancelAnalysis_def on_resolved_def
      reader_onerror_def result_iff_success_def)

text \<open>
  Two events break the invariant: the read error, and a call that resolves with
  \<open>null\<close>, which sets the status to \<open>success\<close> with no result. Every other event keeps
  it.
\<close>

lemma null_response_success_without_result:
  "run initial_world
     [Upload (Choose (Some [example_pdf])) False, ReaderLoad, CallResolved None]
   = Some \<lparr> app = \<lparr> status = success, result = None, errorMsg = None \<rparr>,
            reading = 0, calling = 0 \<rparr>"
  by (simp add: initial_world_def initial_def example_pdf_def handleInputChange_def
      handleFileSelect_def handleFileSelect_begin_def on_resolved_def)

lemma step_keeps_result_iff_success:
  "result_iff_success (app w) \<Longrightarrow> e \<noteq> ReaderError \<Longrightarrow> e \<noteq> CallResolved None \<Longrightarrow>
     step w e = Some w' \<Longrightarrow> result_iff_success (app w')"
proof (cases e)
  case (Upload g throws)
  assume "result_iff_success (app w)" "step w e = Some w'"
  then show ?thesis using Upload
    by (cases g)
       (auto simp: result_iff_success_def handleDrop_def handleInputChange_def
          handleFileSelect_def handleFileSelect_begin_def handleFileSelect_catch_def
          split: if_splits option.splits list.splits)
qed (auto simp: result_iff_success_def on_resolved_def on_rejected_def cancelAnalysis_def
       resetAnalysis_def Let_def split: if_splits)


section \<open>Properties of the JSON reader\<close>

text \<open>Whatever is parsed consumes at least one code unit.\<close>

lemma skip_ws_length: "length (skip_ws cs) \<le> length cs"
  by (simp add: skip_ws_def length_dropWhile_le)

lemma skip_ws_Cons_length: "skip_ws cs = d # r \<Longrightarrow> length r < length cs"
  using skip_ws_length [of cs] by simp

lemma cons_unit_Some: "cons_unit c r = Some (s, rest) \<Longrightarrow> \<exists>s'. r = Some (s', rest)"
  by (auto simp: cons_unit_def split: option.splits)

lemma string_body_length: "string_body m cs = Some (s, rest) \<Longrightarrow> length rest < length cs"
proof (induction m cs arbitrary: s rule: string_body.induct)
  case (1 m)
  then show ?case by simp
next
  case (2 c cs)
  then show ?case
    by (fastforce split: if_splits dest!: cons_unit_Some)
next
  case (3 c cs)
  then show ?case
    by (fastforce split: if_splits option.splits dest!: cons_unit_Some)
next
  case (4 k acc c cs)
  then show ?case
    by (fastforce split: if_splits option.splits dest!: cons_unit_Some)
qed

lemma strip_prefix_length:
  "strip_prefix p cs = Some rest \<Longrightarrow> length rest + length p = length cs"
  by (induction p cs rule: strip_prefix.induct) (auto split: if_splits)

lemma int_part_length: "int_part cs = Some (ip, r) \<Longrightarrow> length r < length cs"
  by (auto simp: int_part_def split: list.splits if_splits
      intro: le_imp_less_Suc length_dropWhile_le)

lemma frac_part_length: "frac_part cs = Some (fp, r) \<Longrightarrow> length r \<le> length cs"
  by (auto simp: frac_part_def split: list.splits if_splits
      intro: le_SucI length_dropWhile_le)

lemma dropWhile_digit_le: "length (dropWhile is_digit xs) \<le> Suc (length xs)"
  "length (dropWhile is_digit xs) \<le> Suc (Suc (length xs))"
  using length_dropWhile_le [of is_digit xs] by simp_all

lemma exp_part_length: "exp_part cs = Some (ep, r) \<Longrightarrow> length r \<le> length cs"
  by (auto simp: exp_part_def Let_def dropWhile_digit_le split: list.splits if_splits)

lemma parse_number_length: "parse_number cs = Some (lexeme, rest) \<Longrightarrow> length rest < length cs"
proof -
  assume a: "parse_number cs = Some (lexeme, rest)"
  obtain sg r0 where sg: "(case cs of [] \<Rightarrow> ([], cs) | c # r \<Rightarrow> if c = 45 then ([c], r) else ([], cs)) = (sg, r0)"
    by fastforce
  then have l0: "length r0 \<le> length cs"
    by (auto split: list.splits if_splits)
  from a sg obtain ip r1 fp r2 ep where
    "int_part r0 = Some (ip, r1)" "frac_part r1 = Some (fp, r2)" "exp_part r2 = Some (ep, rest)"
    by (auto simp: parse_number_def split: option.splits)
  then have "length r1 < length r0" "length r2 \<le> length r1" "length rest \<le> length r2"
    by (auto dest: int_part_length frac_part_length exp_part_length)
  with l0 show ?thesis by simp
qed

lemma strip_prefix_less:
  "strip_prefix (units (x # xs)) cs = Some rest \<Longrightarrow> length rest < length cs"
  by (drule strip_prefix_length) (simp add: units_def)

lemma parse_value_step_length:
  assumes m: "\<And>cs kvs rest. parse_members n cs = Parsed kvs rest \<Longrightarrow> length rest < length cs"
    and e: "\<And>cs vs rest. parse_elements n cs = Parsed vs rest \<Longrightarrow> length rest < length cs"
    and p: "parse_value (Suc n) cs = Parsed v rest"
  shows "length rest < length cs"
proof (cases cs)
  case Nil
  with p show ?thesis by simp
next
  case (Cons c r)
  consider (obj) "c = 123" | (arr) "c \<noteq> 123" "c = 91" | (str) "c \<noteq> 123" "c \<noteq> 91" "c = 34"
    | (lit) "c \<noteq> 123" "c \<noteq> 91" "c \<noteq> 34"
    by blast
  then show ?thesis
  proof cases
    case obj
    with p Cons show ?thesis
      by (auto split: list.splits if_splits parsed.splits
          dest!: skip_ws_Cons_length m
          simp: less_Suc_eq dest: skip_ws_Cons_length)
  next
    case arr
    with p Cons show ?thesis
      by (auto split: list.splits if_splits parsed.splits
          dest!: skip_ws_Cons_length e)
  next
    case str
    with p Cons show ?thesis
      by (auto split: option.splits dest!: string_body_length)
  next
    case lit
    with p Cons show ?thesis
      by (auto split: option.splits dest!: strip_prefix_less parse_number_length)
  qed
qed

lemma parse_elements_step_length:
  assumes v: "\<And>cs v rest. parse_value (Suc n) cs = Parsed v rest \<Longrightarrow> length rest < length cs"
    and e: "\<And>cs vs rest. parse_elements n cs = Parsed vs rest \<Longrightarrow> length rest < length cs"
    and p: "parse_elements (Suc n) cs = Parsed vs rest"
  shows "length rest < length cs"
proof -
  from p obtain x r where pv: "parse_value (Suc n) cs = Parsed x r"
    by (auto split: parsed.splits)
  from v [OF pv] have l: "length r < length cs" .
  from p pv obtain d r' where sk: "skip_ws r = d # r'"
    by (auto split: list.splits)
  from skip_ws_Cons_length [OF sk] l have l': "length r' < length cs" by simp
  show ?thesis
  proof (cases "d = 44")
    case True
    with p pv sk obtain ws where "parse_elements n (skip_ws r') = Parsed ws rest"
      by (auto split: parsed.splits)
    from e [OF this] skip_ws_length [of r'] l' show ?thesis by simp
  next
    case False
    with p pv sk have "rest = r'" by (auto split: if_splits)
    with l' show ?thesis by simp
  qed
qed

lemma parse_members_step_length:
  assumes v: "\<And>cs v rest. parse_value (Suc n) cs = Parsed v rest \<Longrightarrow> length rest < length cs"
    and m: "\<And>cs kvs rest. parse_members n cs = Parsed kvs rest \<Longrightarrow> length rest < length cs"
    and p: "parse_members (Suc n) cs = Parsed kvs rest"
  shows "length rest < length cs"
proof -
  from p obtain r where cs: "cs = 34 # r"
    by (cases cs) (auto split: if_splits)
  from p cs obtain k r1 where sb: "string_body Plain r = Some (k, r1)"
    by (auto split: option.splits)
  from p cs sb obtain r2 where sk1: "skip_ws r1 = 58 # r2"
    by (auto split: list.splits if_splits)
  from p cs sb sk1 obtain x r3 where pv: "parse_value (Suc n) (skip_ws r2) = Parsed x r3"
    by (auto split: parsed.splits)
  from p cs sb sk1 pv obtain d r4 where sk3: "skip_ws r3 = d # r4"
    by (auto split: list.splits)
  have "length r1 < length r" using string_body_length [OF sb] .
  moreover have "length r2 < length r1" using skip_ws_Cons_length [OF sk1] .
  moreover have "length r3 < length r2" using v [OF pv] skip_ws_length [of r2] by simp
  moreover have "length r4 < length r3" using skip_ws_Cons_length [OF sk3] .
  ultimately have l4: "length r4 < length cs" using cs by simp
  show ?thesis
  proof (cases "d = 44")
    case True
    with p cs sb sk1 pv sk3 obtain ws where "parse_members n (skip_ws r4) = Parsed ws rest"
      by (auto split: parsed.splits)
    from m [OF this] skip_ws_length [of r4] l4 show ?thesis by simp
  next
    case False
    with p cs sb sk1 pv sk3 have "rest = r4" by (auto split: if_splits)
    with l4 show ?thesis by simp
  qed
qed

lemma parse_length:
  "(\<forall>cs v rest. parse_value n cs = Parsed v rest \<longrightarrow> length rest < length cs)
   \<and> (\<forall>cs vs rest. parse_elements n cs = Parsed vs rest \<longrightarrow> length rest < length cs)
   \<and> (\<forall>cs kvs rest. parse_members n cs = Parsed kvs rest \<longrightarrow> length rest < length cs)"
proof (induction n)
  case 0
  show ?case by simp
next
  case (Suc n)
  have v: "length rest < length cs" if "parse_value (Suc n) cs = Parsed v rest" for cs v rest
    using Suc that by (blast intro: parse_value_step_length)
  have e: "length rest < length cs" if "parse_elements (Suc n) cs = Parsed vs rest" for cs vs rest
    using Suc v that by (blast intro: parse_elements_step_length)
  have m: "length rest < length cs" if "parse_members (Suc n) cs = Parsed kvs rest" for cs kvs rest
    using Suc v that by (blast intro: parse_members_step_length)
  from v e m show ?case by blast
qed

text \<open>The bound on nested calls is never reached.\<close>

lemmas value_length = parse_length [THEN conjunct1, rule_format]

lemma parse_value_step_fuel:
  assumes m: "\<And>cs. length cs < n \<Longrightarrow> parse_members n cs \<noteq> Exhausted"
    and e: "\<And>cs. length cs < n \<Longrightarrow> parse_elements n cs \<noteq> Exhausted"
    and l: "length cs < Suc n"
  shows "parse_value (Suc n) cs \<noteq> Exhausted"
proof (cases cs)
  case Nil
  then show ?thesis by simp
next
  case (Cons c r)
  have sk: "length (d # r') < n" if "skip_ws r = d # r'" for d r'
    using skip_ws_length [of r] that l Cons by simp
  consider (obj) "c = 123" | (arr) "c \<noteq> 123" "c = 91" | (str) "c \<noteq> 123" "c \<noteq> 91" "c = 34"
    | (lit) "c \<noteq> 123" "c \<noteq> 91" "c \<noteq> 34"
    by blast
  then show ?thesis
  proof cases
    case obj
    show ?thesis
    proof (cases "skip_ws r")
      case Nil
      with Cons obj show ?thesis by simp
    next
      case (Cons d r')
      from m [OF sk [OF Cons]] have "parse_members n (d # r') \<noteq> Exhausted" .
      with \<open>cs = c # r\<close> obj Cons show ?thesis
        by (simp split: parsed.splits)
    qed
  next
    case arr
    show ?thesis
    proof (cases "skip_ws r")
      case Nil
      with Cons arr show ?thesis by simp
    next
      case (Cons d r')
      from e [OF sk [OF Cons]] have "parse_elements n (d # r') \<noteq> Exhausted" .
      with \<open>cs = c # r\<close> arr Cons show ?thesis
        by (simp split: parsed.splits)
    qed
  next
    case str
    with Cons show ?thesis by (simp split: option.splits)
  next
    case lit
    with Cons show ?thesis by (simp split: option.splits)
  qed
qed

lemma parse_elements_step_fuel:
  assumes v: "\<And>cs. length cs < Suc n \<Longrightarrow> parse_value (Suc n) cs \<noteq> Exhausted"
    and e: "\<And>cs. length cs < n \<Longrightarrow> parse_elements n cs \<noteq> Exhausted"
    and l: "length cs < Suc n"
  shows "parse_elements (Suc n) cs \<noteq> Exhausted"
proof (cases "parse_value (Suc n) cs")
  case (Parsed x r)
  from value_length [OF Parsed] l have lr: "length r < n" by simp
  have "length (skip_ws r') < n" if "skip_ws r = d # r'" for d r'
    using skip_ws_Cons_length [OF that] skip_ws_length [of r'] lr by simp
  from e [OF this] Parsed show ?thesis
    by (auto split: list.splits parsed.splits)
next
  case Malformed
  then show ?thesis by simp
next
  case Exhausted
  with v [OF l] show ?thesis by simp
qed

lemma parse_members_step_fuel:
  assumes v: "\<And>cs. length cs < Suc n \<Longrightarrow> parse_value (Suc n) cs \<noteq> Exhausted"
    and m: "\<And>cs. length cs < n \<Longrightarrow> parse_members n cs \<noteq> Exhausted"
    and l: "length cs < Suc n"
  shows "parse_members (Suc n) cs \<noteq> Exhausted"
proof
  assume x: "parse_members (Suc n) cs = Exhausted"
  then obtain r where cs: "cs = 34 # r"
    by (cases cs) (auto split: if_splits)
  from x cs obtain k r1 where sb: "string_body Plain r = Some (k, r1)"
    by (auto split: option.splits)
  from x cs sb obtain r2 where sk1: "skip_ws r1 = 58 # r2"
    by (auto split: list.splits if_splits)
  have l2: "length (skip_ws r2) < n"
    using string_body_length [OF sb] skip_ws_Cons_length [OF sk1] skip_ws_length [of r2] l cs
    by simp
  then have "parse_value (Suc n) (skip_ws r2) \<noteq> Exhausted" by (intro v) simp
  with x cs sb sk1 obtain y r3 where pv: "parse_value (Suc n) (skip_ws r2) = Parsed y r3"
    by (auto split: parsed.splits)
  from x cs sb sk1 pv obtain r4 where sk3: "skip_ws r3 = 44 # r4"
    by (auto split: list.splits if_splits)
  have "length (skip_ws r4) < n"
    using value_length [OF pv] skip_ws_Cons_length [OF sk3] skip_ws_length [of r4] l2
    by simp
  from m [OF this] x cs sb sk1 pv sk3 show False
    by (auto split: parsed.splits)
qed

lemma parse_fuel:
  "(\<forall>cs. length cs < n \<longrightarrow> parse_value n cs \<noteq> Exhausted)
   \<and> (\<forall>cs. length cs < n \<longrightarrow> parse_elements n cs \<noteq> Exhausted)
   \<and> (\<forall>cs. length cs < n \<longrightarrow> parse_members n cs \<noteq> Exhausted)"
proof (induction n)
  case 0
  show ?case by simp
next
  case (Suc n)
  have v: "parse_value (Suc n) cs \<noteq> Exhausted" if "length cs < Suc n" for cs
    by (rule parse_value_step_fuel) (use Suc that in blast)+
  have e: "parse_elements (Suc n) cs \<noteq> Exhausted" if "length cs < Suc n" for cs
    by (rule parse_elements_step_fuel) (use Suc v that in blast)+
  have m: "parse_members (Suc n) cs \<noteq> Exhausted" if "length cs < Suc n" for cs
    by (rule parse_members_step_fuel) (use Suc v that in blast)+
  from v e m show ?case by blast
qed

lemma JSON_parse_fuel: "parse_value (Suc (length text)) (skip_ws text) \<noteq> Exhausted"
  using parse_fuel [of "Suc (length text)"] skip_ws_length [of "text"]
  by (simp add: less_Suc_eq_le)


section \<open>Properties of the analysis client\<close>

text \<open>
  C7. Without a credential (\<open>VITE_API_KEY\<close> undefined or empty) every call of the
  analysis fails with the configuration error, whatever the document and whatever the
  service would answer, and no request has been issued. With a credential, a response
  without text (undefined or empty) fails with the empty-response error, and a rejection
  of the service call is thrown on as it is.
\<close>

theorem analysis_errors:
  "(falsy (VITE_API_KEY env) \<longrightarrow>
      analyzeResumeWithGemini env base64Pdf reply
        = ([], Inl (Error (''API Key is missing. ''
            @ ''Please check your environment configuration.''))))
   \<and> (\<not> falsy (VITE_API_KEY env) \<and> falsy text \<longrightarrow>
      snd (analyzeResumeWithGemini env base64Pdf (Inr text))
        = Inl (Error ''No response extracted from Gemini.''))
   \<and> (\<not> falsy (VITE_API_KEY env) \<longrightarrow>
      snd (analyzeResumeWithGemini env base64Pdf (Inl e)) = Inl (Rejected e))"
  by (simp add: analyzeResumeWithGemini_def Let_def)

theorem analysis_errors_witness:
  "falsy (VITE_API_KEY \<lparr> VITE_API_KEY = None \<rparr>)
   \<and> analyzeResumeWithGemini \<lparr> VITE_API_KEY = None \<rparr> ''JVBERi0='' (Inl ''503'')
       = ([], Inl (Error (''API Key is missing. ''
            @ ''Please check your environment configuration.'')))
   \<and> \<not> falsy (VITE_API_KEY \<lparr> VITE_API_KEY = Some ''secret'' \<rparr>)
   \<and> falsy (Some ([] :: int list))
   \<and> snd (analyzeResumeWithGemini \<lparr> VITE_API_KEY = Some ''secret'' \<rparr> ''JVBERi0=''
            (Inr (Some []) :: string + int list option))
       = Inl (Error ''No response extracted from Gemini.'')
   \<and> snd (analyzeResumeWithGemini \<lparr> VITE_API_KEY = Some ''secret'' \<rparr> ''JVBERi0=''
            (Inl ''503''))
       = Inl (Rejected ''503'')"
  using analysis_errors [of "\<lparr> VITE_API_KEY = None \<rparr>" "''JVBERi0=''" "Inl ''503''"
      "Some []" "''503''"]
    analysis_errors [of "\<lparr> VITE_API_KEY = Some ''secret'' \<rparr>" "''JVBERi0=''" "Inl ''503''"
      "Some []" "''503''"]
  by (simp add: falsy_def)

lemma conforms_no_missing: "conforms sch v \<Longrightarrow> missing_required sch v = []"
  by (cases sch; cases v) (auto simp: missing_required_def filter_empty_conv list_all_iff)

lemma analyze_outcome:
  "snd (analyzeResumeWithGemini env base64Pdf reply) =
     (if falsy (VITE_API_KEY env)
      then Inl (Error (''API Key is missing. ''
            @ ''Please check your environment configuration.''))
      else case reply of
             Inl e \<Rightarrow> Inl (Rejected e)
           | Inr None \<Rightarrow> Inl (Error ''No response extracted from Gemini.'')
           | Inr (Some t) \<Rightarrow>
               if t = [] then Inl (Error ''No response extracted from Gemini.'')
               else (case JSON_parse t of None \<Rightarrow> Inl SyntaxError | Some v \<Rightarrow> Inr v))"
  by (simp add: analyzeResumeWithGemini_def Let_def falsy_def
      split: sum.splits option.splits)

text \<open>
  C1, as the specification words it, fails: the parsed value is returned under a type
  assertion and never compared with the schema. The response text \<open>{}\<close> is valid JSON
  and lacks every required field; the analysis returns the empty object as its result.
\<close>

theorem missing_fields_counterexample:
  "snd (analyzeResumeWithGemini \<lparr> VITE_API_KEY = Some ''secret'' \<rparr> ''JVBERi0=''
          (Inr (Some (units ''{}'')) :: unit + int list option))
     = Inr (JObject [])
   \<and> \<not> conforms ANALYSIS_SCHEMA (JObject [])
   \<and> missing_required ANALYSIS_SCHEMA (JObject []) \<noteq> []"
  by code_simp

text \<open>
  C1, amended. The analysis returns a result exactly when the credential is there, the
  service has answered with a text that is not empty, and that text is valid JSON; the
  result is the parsed value as it is. So a payload that satisfies the schema comes back
  with every required field present, and a text that is not valid JSON is rejected with
  the \<open>SyntaxError\<close> of \<open>JSON.parse\<close>.
\<close>

theorem analysis_result_is_parsed_text:
  "(snd (analyzeResumeWithGemini env base64Pdf reply) = Inr v)
     = (\<not> falsy (VITE_API_KEY env)
        \<and> (\<exists>text. reply = Inr (Some text) \<and> text \<noteq> [] \<and> JSON_parse text = Some v))
   \<and> (\<not> falsy (VITE_API_KEY env) \<and> text \<noteq> [] \<and> JSON_parse text = Some v
        \<and> conforms ANALYSIS_SCHEMA v
      \<longrightarrow> snd (analyzeResumeWithGemini env base64Pdf (Inr (Some text))) = Inr v
          \<and> missing_required ANALYSIS_SCHEMA v = [])
   \<and> (\<not> falsy (VITE_API_KEY env) \<and> text \<noteq> [] \<and> JSON_parse text = None
      \<longrightarrow> snd (analyzeResumeWithGemini env base64Pdf (Inr (Some text))) = Inl SyntaxError)"
proof -
  have a: "(snd (analyzeResumeWithGemini env base64Pdf reply) = Inr v)
     = (\<not> falsy (VITE_API_KEY env)
        \<and> (\<exists>text. reply = Inr (Some text) \<and> text \<noteq> [] \<and> JSON_parse text = Some v))"
  proof (cases reply)
    case (Inl e)
    then show ?thesis by (simp add: analyze_outcome)
  next
    case (Inr t)
    then show ?thesis
      by (cases t) (simp_all add: analyze_outcome split: option.splits)
  qed
  have b: "\<not> falsy (VITE_API_KEY env) \<and> text \<noteq> [] \<and> JSON_parse text = Some v
        \<and> conforms ANALYSIS_SCHEMA v
      \<longrightarrow> snd (analyzeResumeWithGemini env base64Pdf (Inr (Some text))) = Inr v
          \<and> missing_required ANALYSIS_SCHEMA v = []"
    by (simp add: analyze_outcome conforms_no_missing)
  have c: "\<not> falsy (VITE_API_KEY env) \<and> text \<noteq> [] \<and> JSON_parse text = None
      \<longrightarrow> snd (analyzeResumeWithGemini env base64Pdf (Inr (Some text))) = Inl SyntaxError"
    by (simp add: analyze_outcome)
  show ?thesis by (rule conjI [OF a conjI [OF b c]])
qed

theorem analysis_result_is_parsed_text_witness:
  "\<not> falsy (VITE_API_KEY \<lparr> VITE_API_KEY = Some ''secret'' \<rparr>)
   \<and> example_text \<noteq> []
   \<and> (case JSON_parse example_text of
         None \<Rightarrow> False
       | Some v \<Rightarrow>
           conforms ANALYSIS_SCHEMA v
           \<and> snd (analyzeResumeWithGemini \<lparr> VITE_API_KEY = Some ''secret'' \<rparr> ''JVBERi0=''
                    (Inr (Some example_text) :: unit + int list option)) = Inr v
           \<and> missing_required ANALYSIS_SCHEMA v = [])
   \<and> units ''Sorry, no.'' \<noteq> []
   \<and> JSON_parse (units ''Sorry, no.'') = None
   \<and> snd (analyzeResumeWithGemini \<lparr> VITE_API_KEY = Some ''secret'' \<rparr> ''JVBERi0=''
            (Inr (Some (units ''Sorry, no.'')) :: unit + int list option)) = Inl SyntaxError"
proof -
  have k: "\<not> falsy (VITE_API_KEY \<lparr> VITE_API_KEY = Some ''secret'' \<rparr>)"
    by (simp add: falsy_def)
  have ne: "example_text \<noteq> []"
    by (simp add: example_text_def units_def)
  have "case JSON_parse example_text of None \<Rightarrow> False | Some v \<Rightarrow> conforms ANALYSIS_SCHEMA v"
    by code_simp
  then obtain v where p: "JSON_parse example_text = Some v" and c: "conforms ANALYSIS_SCHEMA v"
    by (auto split: option.splits)
  have ne': "units ''Sorry, no.'' \<noteq> []"
    by (simp add: units_def)
  have p': "JSON_parse (units ''Sorry, no.'') = None"
    by code_simp
  note t = analysis_result_is_parsed_text
    [of "\<lparr> VITE_API_KEY = Some ''secret'' \<rparr>" "''JVBERi0=''"
      "Inr (Some example_text) :: unit + int list option"]
  from t [of v example_text, THEN conjunct2, THEN conjunct1] k ne p c
  have r: "snd (analyzeResumeWithGemini \<lparr> VITE_API_KEY = Some ''secret'' \<rparr> ''JVBERi0=''
              (Inr (Some example_text) :: unit + int list option)) = Inr v
           \<and> missing_required ANALYSIS_SCHEMA v = []"
    by blast
  from t [of v "units ''Sorry, no.''", THEN conjunct2, THEN conjunct2] k ne' p'
  have r': "snd (analyzeResumeWithGemini \<lparr> VITE_API_KEY = Some ''secret'' \<rparr> ''JVBERi0=''
            (Inr (Some (units ''Sorry, no.'')) :: unit + int list option)) = Inl SyntaxError"
    by blast
  from k ne p c r ne' p' r' show ?thesis by simp
qed

end
